theory Spec2Isabelle
  imports Main "HOL-Library.AList" "HOL-Library.Sublist"
begin

section \<open>Document forms: a model of \<open>mongoengine/django/forms.py\<close>\<close>

text \<open>
  The module derives form fields from the field descriptors of a document class, seeds a
  form from a document instance, writes cleaned values back onto the instance and saves
  it. The model below follows the module function by function. What the module takes
  from the two frameworks it glues together (the descriptor objects, the form field
  constructors, the document's own validation and persistence) appears as data or as a
  parameter.
\<close>

subsection \<open>Python values and classes\<close>

text \<open>
  The values that cross the module: \<open>None\<close>, booleans, integers, strings, lists and
  function objects. \<open>truthy\<close> is Python's truth test (\<open>if v:\<close>), \<open>callable\<close> is the
  built-in of that name.
\<close>

datatype pyval =
    PNone
  | PBool bool
  | PInt int
  | PStr string
  | PList "pyval list"
  | PFunc nat

fun truthy :: "pyval \<Rightarrow> bool" where
  "truthy PNone = False"
| "truthy (PBool b) = b"
| "truthy (PInt i) = (i \<noteq> 0)"
| "truthy (PStr s) = (s \<noteq> [])"
| "truthy (PList xs) = (xs \<noteq> [])"
| "truthy (PFunc n) = True"

fun callable :: "pyval \<Rightarrow> bool" where
  "callable (PFunc n) = True"
| "callable v = False"

text \<open>
  An optional list of names (the \<open>fields\<close> and \<open>exclude\<close> arguments): \<open>None\<close> is
  Python's \<open>None\<close>. \<open>names_truthy\<close> is the truth test on it.
\<close>

type_synonym names = "string list option"

fun names_truthy :: "names \<Rightarrow> bool" where
  "names_truthy None = False"
| "names_truthy (Some ns) = (ns \<noteq> [])"

text \<open>
  A class is known by its \<open>__name__\<close> and by the classes \<open>isinstance\<close> accepts for
  its objects (the class itself and its ancestors, each written with its module, as in
  \<open>mongoengine.URLField\<close>). The two are independent: the translator dispatches on
  the name, the write-back on \<open>isinstance\<close>.
\<close>

record pyclass =
  cls_name :: string
  cls_mro :: "string list"

definition isinstance_of :: "pyclass \<Rightarrow> string \<Rightarrow> bool" where
  "isinstance_of c k = (k \<in> set (cls_mro c))"

subsection \<open>Document field descriptors and form fields\<close>

text \<open>
  A document field descriptor with the attributes the module reads. \<open>field_str\<close> is
  what \<open>"%s" % field\<close> prints.
\<close>

record mongo_field =
  field_class :: pyclass
  field_str :: string
  choices :: pyval
  validation :: pyval
  verbose_name :: pyval
  required :: pyval
  help_text :: pyval
  regex :: pyval
  max_length :: pyval
  min_length :: pyval
  min_value :: pyval
  max_value :: pyval
  verify_exists :: pyval

datatype form_kind =
    ChoiceField | CharField | IntegerField | FloatField | BooleanField | DateTimeField
  | DecimalField | URLField | FileField | EmailField | ImageField

datatype validator = Custom pyval | RegexValidator pyval

type_synonym widget = string

text \<open>
  A form field as the module constructs it: the constructor called and the keyword
  arguments passed. A keyword the call does not pass is \<open>None\<close>; the validator list of
  a call that passes none is empty.
\<close>

record formfield =
  form_class :: form_kind
  kw_label :: pyval
  kw_required :: pyval
  kw_help_text :: pyval
  kw_widget :: "widget option"
  kw_validators :: "validator list"
  kw_choices :: "pyval option"
  kw_max_length :: "pyval option"
  kw_min_length :: "pyval option"
  kw_min_value :: "pyval option"
  kw_max_value :: "pyval option"
  kw_verify_exists :: "pyval option"

text \<open>The keyword arguments every branch of the translator passes.\<close>

definition base_formfield :: "form_kind \<Rightarrow> mongo_field \<Rightarrow> widget option \<Rightarrow> formfield" where
  "base_formfield k mf w =
     \<lparr> form_class = k,
       kw_label = verbose_name mf,
       kw_required = required mf,
       kw_help_text = help_text mf,
       kw_widget = w,
       kw_validators = [],
       kw_choices = None,
       kw_max_length = None,
       kw_min_length = None,
       kw_min_value = None,
       kw_max_value = None,
       kw_verify_exists = None \<rparr>"

subsection \<open>The field translator\<close>

text \<open>
  \<open>mongofield_to_formfield\<close>: the choice test first, then the validator list, then
  the dispatch on the class name. \<open>None\<close> is the source's \<open>return None\<close>.
\<close>

definition mongofield_to_formfield :: "mongo_field \<Rightarrow> widget option \<Rightarrow> formfield option" where
  "mongofield_to_formfield mf w =
     (if truthy (choices mf) then
        Some ((base_formfield ChoiceField mf w) \<lparr> kw_choices := Some (choices mf) \<rparr>)
      else
        let validators =
              (if truthy (validation mf) \<and> callable (validation mf)
               then [Custom (validation mf)] else []);
            cn = cls_name (field_class mf)
        in
        if cn = ''StringField'' then
          Some ((base_formfield CharField mf w)
                 \<lparr> kw_validators :=
                     (if truthy (regex mf) then validators @ [RegexValidator (regex mf)]
                      else validators),
                   kw_max_length := Some (max_length mf),
                   kw_min_length := Some (min_length mf) \<rparr>)
        else if cn = ''IntField'' then
          Some ((base_formfield IntegerField mf w)
                 \<lparr> kw_validators := validators,
                   kw_min_value := Some (min_value mf),
                   kw_max_value := Some (max_value mf) \<rparr>)
        else if cn = ''FloatField'' then
          Some ((base_formfield FloatField mf w)
                 \<lparr> kw_validators := validators,
                   kw_min_value := Some (min_value mf),
                   kw_max_value := Some (max_value mf) \<rparr>)
        else if cn = ''BooleanField'' then
          Some (base_formfield BooleanField mf w)
        else if cn = ''DateTimeField'' then
          Some ((base_formfield DateTimeField mf w) \<lparr> kw_validators := validators \<rparr>)
        else if cn = ''DecimalField'' then
          Some ((base_formfield DecimalField mf w)
                 \<lparr> kw_validators := validators,
                   kw_min_value := Some (min_value mf),
                   kw_max_value := Some (max_value mf) \<rparr>)
        else if cn = ''URLField'' then
          Some ((base_formfield URLField mf w)
                 \<lparr> kw_validators := validators,
                   kw_verify_exists := Some (verify_exists mf) \<rparr>)
        else if cn = ''FileField'' then
          Some ((base_formfield FileField mf w) \<lparr> kw_validators := validators \<rparr>)
        else if cn = ''EmailField'' then
          Some ((base_formfield EmailField mf w) \<lparr> kw_validators := validators \<rparr>)
        else if cn = ''ImageField'' then
          Some ((base_formfield ImageField mf w) \<lparr> kw_validators := validators \<rparr>)
        else None)"

text \<open>Descriptors used as concrete inputs below.\<close>

definition plain_field :: "string \<Rightarrow> string list \<Rightarrow> mongo_field" where
  "plain_field cn mro =
     \<lparr> field_class = \<lparr> cls_name = cn, cls_mro = mro \<rparr>,
       field_str = ''<mongoengine.fields.'' @ cn @ '' object at 0x10f3e50>'',
       choices = PNone,
       validation = PNone,
       verbose_name = PNone,
       required = PBool False,
       help_text = PNone,
       regex = PNone,
       max_length = PNone,
       min_length = PNone,
       min_value = PNone,
       max_value = PNone,
       verify_exists = PBool False \<rparr>"

definition string_field :: mongo_field where
  "string_field = plain_field ''StringField''
     [''mongoengine.StringField'', ''mongoengine.BaseField'']"

definition url_field :: mongo_field where
  "url_field = plain_field ''URLField''
     [''mongoengine.URLField'', ''mongoengine.StringField'', ''mongoengine.BaseField'']"


definition list_field :: mongo_field where
  "list_field = plain_field ''ListField''
     [''mongoengine.ListField'', ''mongoengine.BaseField'']"

subsection \<open>Errors\<close>

text \<open>
  The exceptions the module raises, by class and message. \<open>NameError\<close> and
  \<open>UnboundLocalError\<close> carry the name that has no binding when it is read.
\<close>

datatype error =
    TypeError string
  | ValueError string
  | NameError string
  | UnboundLocalError string

subsection \<open>Documents and instances\<close>

text \<open>
  A document class has a name and \<open>_fields\<close>, a dictionary from field name to
  descriptor, kept here as the list of its items in iteration order (a dictionary has
  each key once, so the names of a well-formed document are distinct). An instance
  belongs to a class, has the \<open>_fields\<close> of its document, an identity \<open>pk\<close> and
  attribute values. The descriptor protocol of the mapping layer is the attribute
  store: \<open>field.__get__(instance, None)\<close> reads the value under the field's name,
  \<open>field.__set__(instance, v)\<close> stores it; an attribute never set reads \<open>PNone\<close>.
\<close>

record document =
  doc_name :: string
  doc_fields :: "(string \<times> mongo_field) list"

record doc_instance =
  inst_class :: pyclass
  inst_fields :: "(string \<times> mongo_field) list"
  pk :: pyval
  attrs :: "string \<Rightarrow> pyval"

definition field_get :: "doc_instance \<Rightarrow> string \<Rightarrow> pyval" where
  "field_get inst name = attrs inst name"

definition field_set :: "doc_instance \<Rightarrow> string \<Rightarrow> pyval \<Rightarrow> doc_instance" where
  "field_set inst name v = inst \<lparr> attrs := (attrs inst)(name := v) \<rparr>"

subsection \<open>Write-back and initial data\<close>

text \<open>
  The loop of \<open>construct_instance\<close> over \<open>instance._fields.items()\<close>, with the three
  \<open>continue\<close> tests in the source's order and the URL/email branch.
\<close>

fun construct_loop ::
  "(string \<rightharpoonup> pyval) \<Rightarrow> names \<Rightarrow> names \<Rightarrow> (string \<times> mongo_field) list \<Rightarrow> doc_instance \<Rightarrow> doc_instance"
where
  "construct_loop cleaned fs ex [] inst = inst"
| "construct_loop cleaned fs ex ((name, field) # rest) inst =
     (case cleaned name of
        None \<Rightarrow> construct_loop cleaned fs ex rest inst
      | Some v \<Rightarrow>
          if (case fs of None \<Rightarrow> False | Some ns \<Rightarrow> name \<notin> set ns) then
            construct_loop cleaned fs ex rest inst
          else if names_truthy ex \<and> (case ex of None \<Rightarrow> False | Some ns \<Rightarrow> name \<in> set ns) then
            construct_loop cleaned fs ex rest inst
          else if isinstance_of (field_class field) ''mongoengine.URLField''
                  \<or> isinstance_of (field_class field) ''mongoengine.EmailField'' then
            (if truthy v then construct_loop cleaned fs ex rest (field_set inst name v)
             else construct_loop cleaned fs ex rest (field_set inst name PNone))
          else construct_loop cleaned fs ex rest (field_set inst name v))"

text \<open>
  \<open>doc_to_dict\<close>: the loop over the same items, with its own two \<open>continue\<close> tests
  (the first is a truth test on \<open>fields\<close>).
\<close>

fun doc_to_dict_loop ::
  "doc_instance \<Rightarrow> names \<Rightarrow> names \<Rightarrow> (string \<times> mongo_field) list \<Rightarrow> (string \<rightharpoonup> pyval)
     \<Rightarrow> (string \<rightharpoonup> pyval)"
where
  "doc_to_dict_loop inst fs ex [] data = data"
| "doc_to_dict_loop inst fs ex ((name, field) # rest) data =
     (if names_truthy fs \<and> (case fs of None \<Rightarrow> False | Some ns \<Rightarrow> name \<notin> set ns) then
        doc_to_dict_loop inst fs ex rest data
      else if names_truthy ex \<and> (case ex of None \<Rightarrow> False | Some ns \<Rightarrow> name \<in> set ns) then
        doc_to_dict_loop inst fs ex rest data
      else doc_to_dict_loop inst fs ex rest (data(name \<mapsto> field_get inst name)))"

definition doc_to_dict :: "doc_instance \<Rightarrow> names \<Rightarrow> names \<Rightarrow> (string \<rightharpoonup> pyval)" where
  "doc_to_dict inst fs ex = doc_to_dict_loop inst fs ex (inst_fields inst) Map.empty"

subsection \<open>The field collector\<close>

text \<open>
  The override function: absent, present but not callable, or a function from the
  descriptor and the widget keyword to a form field. Its \<open>None\<close> result stands for
  every falsy return (\<open>if formfield:\<close> is a truth test, and a form field is truthy).
\<close>

datatype callback =
    NoCallback
  | NotCallable
  | Callback "mongo_field \<Rightarrow> widget option \<Rightarrow> formfield option"

text \<open>
  Django's \<open>SortedDict\<close> as the list of its items in key order: a key keeps the
  position of its first occurrence and takes the value of its last one, which is what
  building it from a list of pairs, and \<open>update\<close>, do. A value \<open>None\<close> in a field
  mapping is Python's \<open>None\<close>.
\<close>

type_synonym field_dict = "(string \<times> formfield option) list"

definition dict_update :: "(string \<times> 'v) list \<Rightarrow> (string \<times> 'v) list \<Rightarrow> (string \<times> 'v) list" where
  "dict_update d items = foldl (\<lambda>acc (k, v). AList.update k v acc) d items"

definition SortedDict :: "(string \<times> 'v) list \<Rightarrow> (string \<times> 'v) list" where
  "SortedDict items = dict_update [] items"

definition dict_get :: "field_dict \<Rightarrow> string \<Rightarrow> formfield option" where
  "dict_get d k = (case map_of d k of None \<Rightarrow> None | Some v \<Rightarrow> v)"

definition unsupported_message :: "mongo_field \<Rightarrow> string" where
  "unsupported_message field =
     field_str field
       @ '' is an unsupported field types at the moment, you should put it in the exclude list''"

text \<open>
  The loop of \<open>fields_for_doc\<close> over \<open>doc._fields.items()\<close>; it returns
  \<open>field_list\<close> and \<open>ignored\<close>, or the exception raised. \<open>widgets\<close> is the
  dictionary of widget overrides (empty when the argument is \<open>None\<close>).
\<close>

fun collect_loop ::
  "names \<Rightarrow> names \<Rightarrow> (string \<rightharpoonup> widget) \<Rightarrow> callback \<Rightarrow> (string \<times> mongo_field) list
     \<Rightarrow> (string \<times> formfield) list \<Rightarrow> string list
     \<Rightarrow> error + ((string \<times> formfield) list \<times> string list)"
where
  "collect_loop fs ex widgets cb [] field_list ignored = Inr (field_list, ignored)"
| "collect_loop fs ex widgets cb ((name, field) # rest) field_list ignored =
     (if (case fs of None \<Rightarrow> False | Some ns \<Rightarrow> name \<notin> set ns) then
        collect_loop fs ex widgets cb rest field_list ignored
      else if names_truthy ex \<and> (case ex of None \<Rightarrow> False | Some ns \<Rightarrow> name \<in> set ns) then
        collect_loop fs ex widgets cb rest field_list ignored
      else
        let kwargs = widgets name in
        (case cb of
           NoCallback \<Rightarrow>
             (case mongofield_to_formfield field kwargs of
                None \<Rightarrow> Inl (TypeError (unsupported_message field))
              | Some formfield \<Rightarrow>
                  collect_loop fs ex widgets cb rest (field_list @ [(name, formfield)]) ignored)
         | NotCallable \<Rightarrow>
             Inl (TypeError ''formfiled_callback must be a function or callable'')
         | Callback g \<Rightarrow>
             (case g field kwargs of
                Some formfield \<Rightarrow>
                  collect_loop fs ex widgets cb rest (field_list @ [(name, formfield)]) ignored
              | None \<Rightarrow>
                  collect_loop fs ex widgets cb rest field_list (ignored @ [name]))))"

text \<open>
  The condition of the final comprehension. Python's \<open>and\<close> binds tighter than
  \<open>or\<close>, so it reads
  \<open>(not exclude) or ((exclude and f not in exclude) and (f not in ignored))\<close>:
  true when \<open>exclude\<close> is falsy, and otherwise the two membership tests.
\<close>

definition keep_included :: "names \<Rightarrow> string list \<Rightarrow> string \<Rightarrow> bool" where
  "keep_included ex ignored f =
     (if names_truthy ex then
        (case ex of None \<Rightarrow> True | Some ns \<Rightarrow> f \<notin> set ns) \<and> f \<notin> set ignored
      else True)"

definition fields_for_doc ::
  "document \<Rightarrow> names \<Rightarrow> names \<Rightarrow> (string \<rightharpoonup> widget) \<Rightarrow> callback \<Rightarrow> error + field_dict"
where
  "fields_for_doc doc fs ex widgets cb =
     (case collect_loop fs ex widgets cb (doc_fields doc) [] [] of
        Inl e \<Rightarrow> Inl e
      | Inr (field_list, ignored) \<Rightarrow>
          let field_dict = SortedDict (map (\<lambda>(n, ff). (n, Some ff)) field_list) in
          (case fs of
             None \<Rightarrow> Inr field_dict
           | Some ns \<Rightarrow>
               if ns \<noteq> [] then
                 Inr (SortedDict
                       (map (\<lambda>f. (f, dict_get field_dict f))
                            (filter (keep_included ex ignored) ns)))
               else Inr field_dict))"

subsection \<open>Forms\<close>

text \<open>
  \<open>DocFormOptions\<close> holds what the nested \<open>Meta\<close> block declares; an attribute
  not declared is \<open>None\<close> (the widget dictionary: empty).
\<close>

record DocFormOptions =
  opt_document :: "document option"
  opt_fields :: names
  opt_exclude :: names
  opt_widgets :: "string \<rightharpoonup> widget"

text \<open>
  A form instance: its options, the bound document instance, the cleaned data and the
  error dictionary \<open>_errors\<close> (the list of its items; empty also stands for \<open>None\<close>,
  both being falsy).
\<close>

record form =
  meta :: DocFormOptions
  form_instance :: doc_instance
  cleaned_data :: "string \<rightharpoonup> pyval"
  errors :: "(string \<times> pyval list) list"

definition construct_instance :: "form \<Rightarrow> doc_instance \<Rightarrow> names \<Rightarrow> names \<Rightarrow> doc_instance" where
  "construct_instance frm inst fs ex =
     construct_loop (cleaned_data frm) fs ex (inst_fields inst) inst"

text \<open>
  \<open>BaseDocForm.__init__\<close>, up to the call of the form framework's constructor: the
  bound instance and the initial data handed on. \<open>new_document\<close> is the document
  class's constructor.
\<close>

definition BaseDocForm_init ::
  "(document \<Rightarrow> doc_instance) \<Rightarrow> DocFormOptions \<Rightarrow> (string \<rightharpoonup> pyval) option
     \<Rightarrow> doc_instance option \<Rightarrow> error + (doc_instance \<times> (string \<rightharpoonup> pyval))"
where
  "BaseDocForm_init new_document opts initial inst =
     (case inst of
        None \<Rightarrow>
          (case opt_document opts of
             None \<Rightarrow> Inl (ValueError ''DocForm has no document class specified.'')
           | Some d \<Rightarrow>
               Inr (new_document d,
                    (case initial of None \<Rightarrow> Map.empty | Some i \<Rightarrow> Map.empty ++ i)))
      | Some i0 \<Rightarrow>
          let object_data = doc_to_dict i0 (opt_fields opts) (opt_exclude opts) in
          Inr (i0, (case initial of None \<Rightarrow> object_data | Some i \<Rightarrow> object_data ++ i)))"

definition NON_FIELD_ERRORS :: string where
  "NON_FIELD_ERRORS = ''__all__''"

text \<open>\<open>self._errors.setdefault(k, self.error_class()).append(m)\<close>\<close>

definition append_error :: "(string \<times> pyval list) list \<Rightarrow> string \<Rightarrow> pyval \<Rightarrow> (string \<times> pyval list) list" where
  "append_error errs k m =
     (case map_of errs k of
        None \<Rightarrow> AList.update k [m] errs
      | Some ms \<Rightarrow> AList.update k (ms @ [m]) errs)"

text \<open>
  \<open>_update_errors\<close>: \<open>message_dict\<close> is the list of the items of the validation
  error's dictionary, each value being the \<open>message\<close> of the violation.
\<close>

fun update_errors_loop :: "(string \<times> pyval) list \<Rightarrow> form \<Rightarrow> form" where
  "update_errors_loop [] frm = frm"
| "update_errors_loop ((k, m) # rest) frm =
     (if k \<noteq> NON_FIELD_ERRORS then
        update_errors_loop rest
          (frm \<lparr> errors :=
                   append_error (errors frm) k
                     (if truthy m then m
                      else PStr (''MongoEngine data valid failed in '' @ k @ ''!'')),
                 cleaned_data := (cleaned_data frm)(k := None) \<rparr>)
      else update_errors_loop rest frm)"

definition update_errors :: "form \<Rightarrow> (string \<times> pyval) list \<Rightarrow> form" where
  "update_errors frm message_dict =
     (let frm1 = update_errors_loop message_dict frm in
      case map_of message_dict NON_FIELD_ERRORS of
        None \<Rightarrow> frm1
      | Some m \<Rightarrow>
          frm1 \<lparr> errors :=
                   append_error (errors frm1) NON_FIELD_ERRORS
                     (if truthy m then m else PStr ''MongoEngine data valid failed'') \<rparr>)"

text \<open>
  \<open>_post_clean\<close>. \<open>validate\<close> is the document's own validation: \<open>None\<close> when it
  passes, the error dictionary of the \<open>ValidationError\<close> when it raises.
\<close>

definition post_clean :: "(doc_instance \<Rightarrow> (string \<times> pyval) list option) \<Rightarrow> form \<Rightarrow> form" where
  "post_clean validate frm =
     (let opts = meta frm;
          inst = construct_instance frm (form_instance frm) (opt_fields opts) (opt_exclude opts);
          frm1 = frm \<lparr> form_instance := inst \<rparr>
      in case validate inst of
           None \<Rightarrow> frm1
         | Some errs \<Rightarrow> update_errors frm1 errs)"

definition save_fail_message :: "string \<Rightarrow> string \<Rightarrow> string" where
  "save_fail_message type_name fail_message =
     ''The '' @ type_name @ '' could not be '' @ fail_message
       @ '' because the data didn't validate.''"

text \<open>
  \<open>save\<close>. \<open>fail_message\<close> is bound only in the \<open>Document\<close> branch, so reading it
  for any other instance is an \<open>UnboundLocalError\<close>. \<open>db_save\<close> is the document's
  own \<open>save()\<close>.
\<close>

definition save :: "(doc_instance \<Rightarrow> error + doc_instance) \<Rightarrow> form \<Rightarrow> bool \<Rightarrow> error + doc_instance" where
  "save db_save frm commit =
     (let inst = form_instance frm in
      if isinstance_of (inst_class inst) ''mongoengine.EmbeddedDocument'' then
        (if commit then Inl (ValueError ''EmbeddedDocument doesn't support 'commit' paramiter.'')
         else Inr inst)
      else
        let fail_message =
              (if isinstance_of (inst_class inst) ''mongoengine.Document'' then
                 (if pk inst = PNone then Some ''created'' else Some ''changed'')
               else None)
        in
        if errors frm \<noteq> [] then
          (case fail_message of
             None \<Rightarrow> Inl (UnboundLocalError ''fail_message'')
           | Some fm \<Rightarrow> Inl (ValueError (save_fail_message (cls_name (inst_class inst)) fm)))
        else if commit then db_save inst
        else Inr inst)"

subsection \<open>The form class builder\<close>

text \<open>
  What \<open>DocFormMetaclass.__new__\<close> returns: a class left as it is (no parent is a
  \<open>DocForm\<close>), or a class with its options, its declared fields and its base fields.
\<close>

datatype new_class =
    PlainClass
  | FormClass DocFormOptions "(string \<times> formfield) list" field_dict

fun join :: "string \<Rightarrow> string list \<Rightarrow> string" where
  "join sep [] = []"
| "join sep [x] = x"
| "join sep (x # y # ys) = x @ sep @ join sep (y # ys)"

definition unknown_fields_message :: "string list \<Rightarrow> document \<Rightarrow> string" where
  "unknown_fields_message missing_fields doc =
     ''Unknown field(s) ('' @ join '','' missing_fields @ '') specified for '' @ doc_name doc"

text \<open>
  \<open>parents\<close> says whether some base class is a \<open>DocForm\<close>; \<open>declared_fields\<close> is
  what the form framework extracts from the class body. The module never imports or
  defines \<open>FieldError\<close>, so the \<open>raise FieldError(message)\<close> is a \<open>NameError\<close>,
  raised once \<open>message\<close> has been built. \<open>missing_fields\<close> is a set in the source; it
  is kept here in the order of the mapping.
\<close>

definition DocFormMetaclass_new ::
  "bool \<Rightarrow> callback \<Rightarrow> (string \<times> formfield) list \<Rightarrow> DocFormOptions \<Rightarrow> error + new_class"
where
  "DocFormMetaclass_new parents formfield_callback declared_fields opts =
     (if \<not> parents then Inr PlainClass
      else
        case opt_document opts of
          Some doc \<Rightarrow>
            (case fields_for_doc doc (opt_fields opts) (opt_exclude opts) (opt_widgets opts)
                    formfield_callback of
               Inl e \<Rightarrow> Inl e
             | Inr field_map \<Rightarrow>
                 let none_doc_fields = map fst (filter (\<lambda>(k, v). v = None) field_map);
                     missing_fields =
                       filter (\<lambda>k. k \<notin> set (map fst declared_fields)) none_doc_fields
                 in
                 if missing_fields \<noteq> [] then
                   (let message = unknown_fields_message missing_fields doc
                    in Inl (NameError ''FieldError''))
                 else
                   Inr (FormClass opts declared_fields
                          (dict_update field_map (map (\<lambda>(k, v). (k, Some v)) declared_fields))))
        | None \<Rightarrow>
            Inr (FormClass opts declared_fields (map (\<lambda>(k, v). (k, Some v)) declared_fields)))"

subsection \<open>Concrete inputs\<close>

text \<open>
  Descriptors, a document with its instance, and forms bound to it, used where a
  statement is evaluated at an input.
\<close>

definition choice_list_field :: mongo_field where
  "choice_list_field =
     list_field \<lparr> choices := PList [PStr ''a'', PStr ''b''], validation := PFunc 0 \<rparr>"




definition user_document :: document where
  "user_document =
     \<lparr> doc_name = ''User'',
       doc_fields = [(''name'', string_field), (''homepage'', url_field)] \<rparr>"

definition user_instance :: doc_instance where
  "user_instance =
     \<lparr> inst_class = \<lparr> cls_name = ''User'',
                       cls_mro = [''User'', ''mongoengine.Document''] \<rparr>,
       inst_fields = doc_fields user_document,
       pk = PNone,
       attrs = (\<lambda>n. PNone)(''name'' := PStr ''Ann'', ''homepage'' := PStr []) \<rparr>"

definition address_instance :: doc_instance where
  "address_instance =
     \<lparr> inst_class = \<lparr> cls_name = ''Address'',
                       cls_mro = [''Address'', ''mongoengine.EmbeddedDocument''] \<rparr>,
       inst_fields = [(''street'', string_field)],
       pk = PNone,
       attrs = (\<lambda>n. PNone) \<rparr>"

definition user_options :: DocFormOptions where
  "user_options =
     \<lparr> opt_document = Some user_document,
       opt_fields = None,
       opt_exclude = None,
       opt_widgets = Map.empty \<rparr>"

text \<open>The form bound to \<open>user_instance\<close> whose cleaned data are the values read off it.\<close>

definition user_form :: form where
  "user_form =
     \<lparr> meta = user_options,
       form_instance = user_instance,
       cleaned_data = doc_to_dict user_instance None None,
       errors = [] \<rparr>"

definition failed_user_form :: form where
  "failed_user_form =
     user_form \<lparr> errors := [(''name'', [PStr ''This field is required.''])] \<rparr>"

definition failed_address_form :: form where
  "failed_address_form =
     \<lparr> meta = user_options \<lparr> opt_document := None \<rparr>,
       form_instance = address_instance,
       cleaned_data = Map.empty,
       errors = [(''street'', [PStr ''This field is required.''])] \<rparr>"

definition no_violation :: "doc_instance \<Rightarrow> (string \<times> pyval) list option" where
  "no_violation inst = None"

definition db_identity :: "doc_instance \<Rightarrow> error + doc_instance" where
  "db_identity inst = Inr inst"

definition post_document :: document where
  "post_document =
     \<lparr> doc_name = ''Post'',
       doc_fields = [(''title'', string_field), (''tags'', list_field)] \<rparr>"

text \<open>An override function that declines every field.\<close>

definition ignore_callback :: callback where
  "ignore_callback = Callback (\<lambda>field widget. None)"

section \<open>Properties\<close>

subsection \<open>The field translator\<close>


text \<open>
  Claim C3. A descriptor whose \<open>choices\<close> attribute is non-empty (truthy) is translated
  to a choice field carrying those choices, whatever its class name is, also a name
  outside the table of supported kinds.
\<close>

theorem choices_give_choice_field:
  assumes "truthy (choices mf)"
  shows "\<exists>ff. mongofield_to_formfield mf w = Some ff \<and> form_class ff = ChoiceField
            \<and> kw_choices ff = Some (choices mf)"
  using assms by (simp add: mongofield_to_formfield_def base_formfield_def)

theorem choices_give_choice_field_witness:
  "truthy (choices choice_list_field)
   \<and> cls_name (field_class choice_list_field) = ''ListField''
   \<and> (\<exists>ff. mongofield_to_formfield choice_list_field None = Some ff \<and> form_class ff = ChoiceField
            \<and> kw_choices ff = Some (choices choice_list_field))"
  using choices_give_choice_field [of choice_list_field None]
  by (simp add: choice_list_field_def list_field_def plain_field_def)




subsection \<open>Write-back\<close>

text \<open>A name the loop skips, or that is no field of the instance, keeps its value.\<close>

lemma construct_loop_unwritten:
  assumes "cleaned n = None \<or> (\<exists>ns. fs = Some ns \<and> n \<notin> set ns)
           \<or> (\<exists>ns. ex = Some ns \<and> n \<in> set ns) \<or> n \<notin> fst ` set items"
  shows "attrs (construct_loop cleaned fs ex items inst) n = attrs inst n"
  using assms
proof (induction items arbitrary: inst)
  case Nil
  then show ?case by simp
next
  case (Cons p items)
  obtain name field where p: "p = (name, field)" by (cases p)
  have keep: "cleaned n = None \<or> (\<exists>ns. fs = Some ns \<and> n \<notin> set ns)
           \<or> (\<exists>ns. ex = Some ns \<and> n \<in> set ns) \<or> n \<notin> fst ` set items"
    using Cons.prems by auto
  have step: "\<And>i. attrs (construct_loop cleaned fs ex items i) n = attrs i n"
    using Cons.IH [OF keep] .
  show ?case
  proof (cases "name = n")
    case False
    then show ?thesis
      by (simp add: p step field_set_def split: option.splits)
  next
    case True
    with Cons.prems p show ?thesis
      by (auto simp: step field_set_def split: option.splits)
  qed
qed

text \<open>The loop touches the attribute values only.\<close>

lemma construct_loop_rest:
  "inst_class (construct_loop cleaned fs ex items inst) = inst_class inst
   \<and> inst_fields (construct_loop cleaned fs ex items inst) = inst_fields inst
   \<and> pk (construct_loop cleaned fs ex items inst) = pk inst"
  by (induction items arbitrary: inst) (auto simp: field_set_def split: option.splits)

text \<open>What the loop stores for a field that passes the three tests.\<close>

lemma construct_loop_written:
  assumes "distinct (map fst items)"
    and "(n, f) \<in> set items"
    and "cleaned n = Some v"
    and "\<forall>ns. fs = Some ns \<longrightarrow> n \<in> set ns"
    and "\<forall>ns. ex = Some ns \<longrightarrow> n \<notin> set ns"
  shows "attrs (construct_loop cleaned fs ex items inst) n =
           (if (isinstance_of (field_class f) ''mongoengine.URLField''
                \<or> isinstance_of (field_class f) ''mongoengine.EmailField'') \<and> \<not> truthy v
            then PNone else v)"
  using assms(1,2)
proof (induction items arbitrary: inst)
  case Nil
  then show ?case by simp
next
  case (Cons p items)
  obtain name field where p: "p = (name, field)" by (cases p)
  show ?case
  proof (cases "name = n")
    case True
    with Cons.prems p have f: "field = f" and fresh: "n \<notin> fst ` set items"
      by (auto simp: image_iff)
    have rest: "\<And>i. attrs (construct_loop cleaned fs ex items i) n = attrs i n"
      using construct_loop_unwritten [of cleaned n fs ex items] fresh by blast
    have inc: "\<not> (case fs of None \<Rightarrow> False | Some ns \<Rightarrow> n \<notin> set ns)"
      using assms(4) by (cases fs) auto
    have exc: "\<not> (names_truthy ex \<and> (case ex of None \<Rightarrow> False | Some ns \<Rightarrow> n \<in> set ns))"
      using assms(5) by (cases ex) auto
    show ?thesis
      using inc exc by (auto simp: p True f rest field_set_def assms(3))
  next
    case False
    with Cons.prems p have "distinct (map fst items)" "(n, f) \<in> set items" by auto
    from Cons.IH [OF this] show ?thesis
      by (simp add: p split: option.splits)
  qed
qed

text \<open>A field name has one descriptor.\<close>

lemma field_of_name:
  assumes "distinct (map fst items)" and "(name, f) \<in> set items" and "(name, g) \<in> set items"
  shows "g = f"
  using map_of_is_SomeI [OF assms(1,2)] map_of_is_SomeI [OF assms(1,3)] by simp

text \<open>
  The initial data hold the instance's value under every field name that passes the
  two tests of \<open>doc_to_dict\<close>.
\<close>

lemma doc_to_dict_loop_field:
  assumes "(name \<in> fst ` set items
            \<and> \<not> (names_truthy fs \<and> (case fs of None \<Rightarrow> False | Some ns \<Rightarrow> name \<notin> set ns))
            \<and> \<not> (names_truthy ex \<and> (case ex of None \<Rightarrow> False | Some ns \<Rightarrow> name \<in> set ns)))
           \<or> data name = Some (attrs inst name)"
  shows "doc_to_dict_loop inst fs ex items data name = Some (attrs inst name)"
  using assms
proof (induction items arbitrary: data)
  case Nil
  then show ?case by simp
next
  case (Cons p items)
  obtain n0 f0 where p: "p = (n0, f0)" by (cases p)
  let ?skip = "(names_truthy fs \<and> (case fs of None \<Rightarrow> False | Some ns \<Rightarrow> n0 \<notin> set ns))
      \<or> (names_truthy ex \<and> (case ex of None \<Rightarrow> False | Some ns \<Rightarrow> n0 \<in> set ns))"
  show ?case
  proof (cases ?skip)
    case True
    then have eq: "doc_to_dict_loop inst fs ex (p # items) data
                 = doc_to_dict_loop inst fs ex items data"
      unfolding p by auto
    from True Cons.prems have "(name \<in> fst ` set items
            \<and> \<not> (names_truthy fs \<and> (case fs of None \<Rightarrow> False | Some ns \<Rightarrow> name \<notin> set ns))
            \<and> \<not> (names_truthy ex \<and> (case ex of None \<Rightarrow> False | Some ns \<Rightarrow> name \<in> set ns)))
           \<or> data name = Some (attrs inst name)"
      by (auto simp: p)
    from Cons.IH [of data, OF this] eq show ?thesis by simp
  next
    case False
    then have eq: "doc_to_dict_loop inst fs ex (p # items) data
                 = doc_to_dict_loop inst fs ex items (data(n0 \<mapsto> field_get inst n0))"
      unfolding p by auto
    from Cons.prems have "(name \<in> fst ` set items
            \<and> \<not> (names_truthy fs \<and> (case fs of None \<Rightarrow> False | Some ns \<Rightarrow> name \<notin> set ns))
            \<and> \<not> (names_truthy ex \<and> (case ex of None \<Rightarrow> False | Some ns \<Rightarrow> name \<in> set ns)))
           \<or> (data(n0 \<mapsto> field_get inst n0)) name = Some (attrs inst name)"
      by (auto simp: p field_get_def)
    from Cons.IH [of "data(n0 \<mapsto> field_get inst n0)", OF this] eq show ?thesis
      by (simp only:)
  qed
qed

lemma doc_to_dict_field:
  assumes "(name, f) \<in> set (inst_fields inst)"
    and "\<forall>ns. fs = Some ns \<longrightarrow> name \<in> set ns"
    and "\<forall>ns. ex = Some ns \<longrightarrow> name \<notin> set ns"
  shows "doc_to_dict inst fs ex name = Some (attrs inst name)"
proof -
  have a: "name \<in> fst ` set (inst_fields inst)" using assms(1) by force
  have b: "\<not> (names_truthy fs \<and> (case fs of None \<Rightarrow> False | Some ns \<Rightarrow> name \<notin> set ns))"
    using assms(2) by (cases fs) auto
  have c: "\<not> (names_truthy ex \<and> (case ex of None \<Rightarrow> False | Some ns \<Rightarrow> name \<in> set ns))"
    using assms(3) by (cases ex) auto
  from a b c show ?thesis
    unfolding doc_to_dict_def by (intro doc_to_dict_loop_field) blast
qed

text \<open>
  Claim C4. For a field of the instance (field names being distinct, as the keys of a
  dictionary are) that has a cleaned value and passes the include and exclude tests,
  \<open>construct_instance\<close> stores \<open>None\<close> when the field is a URL or email field and
  the cleaned value is falsy, and the cleaned value itself in every other case.
\<close>

theorem construct_instance_writes:
  assumes "distinct (map fst (inst_fields inst))"
    and "(name, field) \<in> set (inst_fields inst)"
    and "cleaned_data frm name = Some v"
    and "\<forall>ns. fs = Some ns \<longrightarrow> name \<in> set ns"
    and "\<forall>ns. ex = Some ns \<longrightarrow> name \<notin> set ns"
  shows "attrs (construct_instance frm inst fs ex) name =
           (if (isinstance_of (field_class field) ''mongoengine.URLField''
                \<or> isinstance_of (field_class field) ''mongoengine.EmailField'') \<and> \<not> truthy v
            then PNone else v)"
  unfolding construct_instance_def
  using assms by (rule construct_loop_written)

theorem construct_instance_writes_witness:
  "distinct (map fst (inst_fields user_instance))
   \<and> (''homepage'', url_field) \<in> set (inst_fields user_instance)
   \<and> cleaned_data user_form ''homepage'' = Some (PStr [])
   \<and> isinstance_of (field_class url_field) ''mongoengine.URLField''
   \<and> attrs (construct_instance user_form user_instance None None) ''homepage'' = PNone"
proof -
  have d: "distinct (map fst (inst_fields user_instance))"
    and m: "(''homepage'', url_field) \<in> set (inst_fields user_instance)"
    by (simp_all add: user_instance_def user_document_def)
  have c: "cleaned_data user_form ''homepage'' = Some (PStr [])"
    by (simp add: user_form_def doc_to_dict_def user_instance_def user_document_def
          field_get_def)
  have i: "\<forall>ns. (None :: names) = Some ns \<longrightarrow> ''homepage'' \<in> set ns"
    and e: "\<forall>ns. (None :: names) = Some ns \<longrightarrow> ''homepage'' \<notin> set ns"
    by simp_all
  have u: "isinstance_of (field_class url_field) ''mongoengine.URLField''"
    by (simp add: url_field_def plain_field_def isinstance_of_def)
  from construct_instance_writes [OF d m c i e] d m c u show ?thesis by simp
qed

text \<open>
  Claim C10. \<open>construct_instance\<close> leaves the value under a name unchanged when the
  name is no key of the cleaned data, or is absent from an include list that was
  given, or is in the exclude list, or is no field of the instance; besides the
  attribute values it changes nothing of the instance.
\<close>

theorem construct_instance_frame:
  assumes "cleaned_data frm name = None
           \<or> (\<exists>ns. fs = Some ns \<and> name \<notin> set ns)
           \<or> (\<exists>ns. ex = Some ns \<and> name \<in> set ns)
           \<or> name \<notin> fst ` set (inst_fields inst)"
  shows "attrs (construct_instance frm inst fs ex) name = attrs inst name
         \<and> inst_class (construct_instance frm inst fs ex) = inst_class inst
         \<and> inst_fields (construct_instance frm inst fs ex) = inst_fields inst
         \<and> pk (construct_instance frm inst fs ex) = pk inst"
  unfolding construct_instance_def
  using construct_loop_unwritten
          [of "cleaned_data frm" name fs ex "inst_fields inst" inst, OF assms]
        construct_loop_rest [of "cleaned_data frm" fs ex "inst_fields inst" inst]
  by simp

theorem construct_instance_frame_witness:
  "(cleaned_data user_form ''homepage'' = None
    \<or> (\<exists>ns. (None :: names) = Some ns \<and> ''homepage'' \<notin> set ns)
    \<or> (\<exists>ns. Some [''homepage''] = Some ns \<and> ''homepage'' \<in> set ns)
    \<or> ''homepage'' \<notin> fst ` set (inst_fields user_instance))
   \<and> cleaned_data user_form ''homepage'' = Some (PStr [])
   \<and> attrs (construct_instance user_form user_instance None (Some [''homepage''])) ''homepage''
       = PStr []"
proof -
  have h: "cleaned_data user_form ''homepage'' = None
    \<or> (\<exists>ns. (None :: names) = Some ns \<and> ''homepage'' \<notin> set ns)
    \<or> (\<exists>ns. Some [''homepage''] = Some ns \<and> ''homepage'' \<in> set ns)
    \<or> ''homepage'' \<notin> fst ` set (inst_fields user_instance)"
    by simp
  have c: "cleaned_data user_form ''homepage'' = Some (PStr [])"
    by (simp add: user_form_def doc_to_dict_def user_instance_def user_document_def
          field_get_def)
  have a: "attrs user_instance ''homepage'' = PStr []"
    by (simp add: user_instance_def)
  from construct_instance_frame [OF h] h c a show ?thesis by simp
qed

subsection \<open>Saving\<close>

text \<open>
  Claim C1, as stated, fails. \<open>user_instance\<close> has a string field and a URL field, both
  of supported kinds, and the empty string as its homepage. The form bound to it with
  the values read off the instance as cleaned data, post-cleaned with a validation
  that passes and saved without commit, returns an instance whose homepage is
  \<open>None\<close>.
\<close>

theorem round_trip_counterexample:
  "mongofield_to_formfield string_field None \<noteq> None
   \<and> mongofield_to_formfield url_field None \<noteq> None
   \<and> form_instance user_form = user_instance
   \<and> cleaned_data user_form = doc_to_dict user_instance None None
   \<and> attrs user_instance ''homepage'' = PStr []
   \<and> (case save db_identity (post_clean no_violation user_form) False of
         Inl e \<Rightarrow> None
       | Inr i \<Rightarrow> Some (attrs i ''homepage'')) = Some PNone"
  by (simp add: user_form_def user_options_def user_instance_def user_document_def
        string_field_def url_field_def plain_field_def mongofield_to_formfield_def
        base_formfield_def Let_def no_violation_def db_identity_def post_clean_def
        save_def construct_instance_def doc_to_dict_def field_get_def field_set_def
        isinstance_of_def)

text \<open>
  Claim C1, amended. Take a form bound to an instance whose field names are distinct,
  with no error recorded, whose cleaned data are exactly the values read off the
  instance under the form's include and exclude lists, and a document validation that
  passes on the written-back instance. Then \<open>save\<close> without commit returns an
  instance on which a URL or email field that passes the include and exclude tests
  of the write-back and whose original value was falsy holds \<open>None\<close>, and every
  other value is the original one.
\<close>

theorem round_trip:
  assumes "distinct (map fst (inst_fields inst))"
    and "form_instance frm = inst"
    and "opt_fields (meta frm) = fs"
    and "opt_exclude (meta frm) = ex"
    and "errors frm = []"
    and "cleaned_data frm = doc_to_dict inst fs ex"
    and "validate (construct_instance frm inst fs ex) = None"
  shows "\<exists>inst'. save db_save (post_clean validate frm) False = Inr inst'
           \<and> (\<forall>name. attrs inst' name =
                 (if (\<exists>f. (name, f) \<in> set (inst_fields inst)
                          \<and> (isinstance_of (field_class f) ''mongoengine.URLField''
                               \<or> isinstance_of (field_class f) ''mongoengine.EmailField''))
                      \<and> (\<forall>ns. fs = Some ns \<longrightarrow> name \<in> set ns)
                      \<and> (\<forall>ns. ex = Some ns \<longrightarrow> name \<notin> set ns)
                      \<and> \<not> truthy (attrs inst name)
                  then PNone else attrs inst name))"
proof -
  let ?inst' = "construct_instance frm inst fs ex"
  let ?um = "\<lambda>f. isinstance_of (field_class f) ''mongoengine.URLField''
                  \<or> isinstance_of (field_class f) ''mongoengine.EmailField''"
  have pc: "post_clean validate frm = frm \<lparr> form_instance := ?inst' \<rparr>"
    using assms(2,3,4,7) by (simp add: post_clean_def Let_def)
  have sv: "save db_save (post_clean validate frm) False = Inr ?inst'"
    using assms(5) by (simp add: pc save_def Let_def)
  have val: "attrs ?inst' name =
                 (if (\<exists>f. (name, f) \<in> set (inst_fields inst) \<and> ?um f)
                      \<and> (\<forall>ns. fs = Some ns \<longrightarrow> name \<in> set ns)
                      \<and> (\<forall>ns. ex = Some ns \<longrightarrow> name \<notin> set ns)
                      \<and> \<not> truthy (attrs inst name)
                  then PNone else attrs inst name)" for name
  proof (cases "(\<exists>f. (name, f) \<in> set (inst_fields inst))
                 \<and> (\<forall>ns. fs = Some ns \<longrightarrow> name \<in> set ns)
                 \<and> (\<forall>ns. ex = Some ns \<longrightarrow> name \<notin> set ns)")
    case True
    then obtain f where f: "(name, f) \<in> set (inst_fields inst)"
      and inc: "\<forall>ns. fs = Some ns \<longrightarrow> name \<in> set ns"
      and exc: "\<forall>ns. ex = Some ns \<longrightarrow> name \<notin> set ns" by blast
    have only: "(\<exists>g. (name, g) \<in> set (inst_fields inst) \<and> ?um g) \<longleftrightarrow> ?um f"
      using field_of_name [OF assms(1) f] f by blast
    have cl: "cleaned_data frm name = Some (attrs inst name)"
      unfolding assms(6) using f inc exc by (rule doc_to_dict_field)
    have "attrs ?inst' name = (if ?um f \<and> \<not> truthy (attrs inst name) then PNone
                                else attrs inst name)"
      unfolding construct_instance_def
      using assms(1) f cl inc exc by (rule construct_loop_written)
    with only inc exc show ?thesis by auto
  next
    case False
    then have "cleaned_data frm name = None \<or> (\<exists>ns. fs = Some ns \<and> name \<notin> set ns)
           \<or> (\<exists>ns. ex = Some ns \<and> name \<in> set ns) \<or> name \<notin> fst ` set (inst_fields inst)"
      by force
    then have "attrs ?inst' name = attrs inst name"
      unfolding construct_instance_def by (rule construct_loop_unwritten)
    with False show ?thesis by auto
  qed
  from sv val show ?thesis by blast
qed

theorem round_trip_witness:
  "distinct (map fst (inst_fields user_instance))
   \<and> form_instance user_form = user_instance
   \<and> opt_fields (meta user_form) = None
   \<and> opt_exclude (meta user_form) = None
   \<and> errors user_form = []
   \<and> cleaned_data user_form = doc_to_dict user_instance None None
   \<and> no_violation (construct_instance user_form user_instance None None) = None
   \<and> attrs user_instance ''name'' = PStr ''Ann''
   \<and> attrs user_instance ''homepage'' = PStr []
   \<and> (\<exists>inst'. save db_identity (post_clean no_violation user_form) False = Inr inst'
         \<and> attrs inst' ''name'' = PStr ''Ann''
         \<and> attrs inst' ''homepage'' = PNone)"
proof -
  have d: "distinct (map fst (inst_fields user_instance))"
    and a: "form_instance user_form = user_instance"
    and f: "opt_fields (meta user_form) = None"
    and x: "opt_exclude (meta user_form) = None"
    and b: "errors user_form = []"
    and c: "cleaned_data user_form = doc_to_dict user_instance None None"
    by (simp_all add: user_form_def user_options_def user_instance_def user_document_def)
  have v: "no_violation (construct_instance user_form user_instance None None) = None"
    by (simp add: no_violation_def)
  have n: "attrs user_instance ''name'' = PStr ''Ann''"
    and h: "attrs user_instance ''homepage'' = PStr []"
    by (simp_all add: user_instance_def)
  have u: "(''homepage'', url_field) \<in> set (inst_fields user_instance)"
    "isinstance_of (field_class url_field) ''mongoengine.URLField''"
    by (simp_all add: user_instance_def user_document_def url_field_def plain_field_def
          isinstance_of_def)
  from round_trip [where frm = user_form and inst = user_instance and fs = None
      and ex = None and validate = no_violation and db_save = db_identity,
      OF d a f x b c v]
  obtain inst' where s: "save db_identity (post_clean no_violation user_form) False = Inr inst'"
    and r: "\<And>name. attrs inst' name =
                 (if (\<exists>f. (name, f) \<in> set (inst_fields user_instance)
                          \<and> (isinstance_of (field_class f) ''mongoengine.URLField''
                               \<or> isinstance_of (field_class f) ''mongoengine.EmailField''))
                      \<and> \<not> truthy (attrs user_instance name)
                  then PNone else attrs user_instance name)"
    by auto
  from r [of "''name''"] n have rn: "attrs inst' ''name'' = PStr ''Ann''" by simp
  from r [of "''homepage''"] h u have rh: "attrs inst' ''homepage'' = PNone" by auto
  from d a f x b c v n h s rn rh show ?thesis by blast
qed

text \<open>
  Claim C5, as stated, fails for embedded documents: \<open>save\<close> returns the embedded
  instance before it looks at the recorded errors.
\<close>

theorem save_with_errors_counterexample:
  "errors failed_address_form \<noteq> []
   \<and> isinstance_of (inst_class (form_instance failed_address_form))
        ''mongoengine.EmbeddedDocument''
   \<and> save db_identity failed_address_form False = Inr address_instance"
  by (simp add: failed_address_form_def address_instance_def save_def isinstance_of_def)

text \<open>
  Claim C5, amended. When errors are recorded and the bound instance is a
  \<open>Document\<close> and not an \<open>EmbeddedDocument\<close>, \<open>save\<close> raises a \<open>ValueError\<close>
  whose message holds the name of the instance's class and \<open>created\<close> when the
  instance has no identity (\<open>pk\<close> is \<open>None\<close>), \<open>changed\<close> when it has one, whether or
  not a commit is asked for.
\<close>

theorem save_with_errors_raises:
  assumes "errors frm \<noteq> []"
    and "isinstance_of (inst_class (form_instance frm)) ''mongoengine.Document''"
    and "\<not> isinstance_of (inst_class (form_instance frm)) ''mongoengine.EmbeddedDocument''"
  shows "save db_save frm commit =
           Inl (ValueError
                 (''The '' @ cls_name (inst_class (form_instance frm)) @ '' could not be ''
                    @ (if pk (form_instance frm) = PNone then ''created'' else ''changed'')
                    @ '' because the data didn't validate.''))"
  using assms by (simp add: save_def save_fail_message_def Let_def)

theorem save_with_errors_raises_witness:
  "errors failed_user_form \<noteq> []
   \<and> isinstance_of (inst_class (form_instance failed_user_form)) ''mongoengine.Document''
   \<and> \<not> isinstance_of (inst_class (form_instance failed_user_form))
          ''mongoengine.EmbeddedDocument''
   \<and> pk (form_instance failed_user_form) = PNone
   \<and> save db_identity failed_user_form True =
       Inl (ValueError ''The User could not be created because the data didn't validate.'')"
proof -
  have a: "errors failed_user_form \<noteq> []"
    and b: "isinstance_of (inst_class (form_instance failed_user_form)) ''mongoengine.Document''"
    and c: "\<not> isinstance_of (inst_class (form_instance failed_user_form))
               ''mongoengine.EmbeddedDocument''"
    and d: "pk (form_instance failed_user_form) = PNone"
    and e: "cls_name (inst_class (form_instance failed_user_form)) = ''User''"
    by (simp_all add: failed_user_form_def user_form_def user_instance_def isinstance_of_def)
  from save_with_errors_raises [OF a b c, of db_identity True] a b c d e
  show ?thesis by simp
qed

subsection \<open>The field collector\<close>

text \<open>
  Without an override function, the loop stops at the first field it does not skip for
  which the translator has no form field, and raises for that descriptor.
\<close>

lemma collect_loop_first_unsupported:
  assumes "(name, field) \<in> set items"
    and "\<forall>ns. fs = Some ns \<longrightarrow> name \<in> set ns"
    and "\<forall>ns. ex = Some ns \<longrightarrow> name \<notin> set ns"
    and "mongofield_to_formfield field (widgets name) = None"
  shows "\<exists>pre n f post. items = pre @ (n, f) # post
           \<and> (\<forall>m g. (m, g) \<in> set pre \<longrightarrow>
                 \<not> ((\<forall>ns. fs = Some ns \<longrightarrow> m \<in> set ns) \<and> (\<forall>ns. ex = Some ns \<longrightarrow> m \<notin> set ns)
                    \<and> mongofield_to_formfield g (widgets m) = None))
           \<and> (\<forall>ns. fs = Some ns \<longrightarrow> n \<in> set ns) \<and> (\<forall>ns. ex = Some ns \<longrightarrow> n \<notin> set ns)
           \<and> mongofield_to_formfield f (widgets n) = None
           \<and> collect_loop fs ex widgets NoCallback items field_list ignored
               = Inl (TypeError (unsupported_message f))"
  using assms(1)
proof (induction items arbitrary: field_list ignored)
  case Nil
  then show ?case by simp
next
  case (Cons p items)
  obtain n0 f0 where p: "p = (n0, f0)" by (cases p)
  let ?surv = "\<lambda>m. (\<forall>ns. fs = Some ns \<longrightarrow> m \<in> set ns) \<and> (\<forall>ns. ex = Some ns \<longrightarrow> m \<notin> set ns)"
  let ?skip = "(case fs of None \<Rightarrow> False | Some ns \<Rightarrow> n0 \<notin> set ns)
      \<or> (names_truthy ex \<and> (case ex of None \<Rightarrow> False | Some ns \<Rightarrow> n0 \<in> set ns))"
  have kept: "\<not> ?skip \<longleftrightarrow> ?surv n0"
    by (cases fs; cases ex) auto
  show ?case
  proof (cases "?surv n0 \<and> mongofield_to_formfield f0 (widgets n0) = None")
    case True
    then have "collect_loop fs ex widgets NoCallback (p # items) field_list ignored
              = Inl (TypeError (unsupported_message f0))"
      using kept unfolding p by auto
    moreover have "p # items = [] @ (n0, f0) # items" by (simp add: p)
    ultimately show ?thesis
      using True by (metis empty_iff list.set(1))
  next
    case False
    with assms(2,3,4) have "(name, field) \<noteq> (n0, f0)" by auto
    with Cons.prems p have mem: "(name, field) \<in> set items" by auto
    obtain fl where step: "collect_loop fs ex widgets NoCallback (p # items) field_list ignored
              = collect_loop fs ex widgets NoCallback items fl ignored"
    proof (cases "?surv n0")
      case True
      with False obtain ff where "mongofield_to_formfield f0 (widgets n0) = Some ff" by auto
      with True kept have "collect_loop fs ex widgets NoCallback (p # items) field_list ignored
              = collect_loop fs ex widgets NoCallback items (field_list @ [(n0, ff)]) ignored"
        unfolding p by auto
      then show ?thesis by (rule that)
    next
      case False
      with kept have "collect_loop fs ex widgets NoCallback (p # items) field_list ignored
              = collect_loop fs ex widgets NoCallback items field_list ignored"
        unfolding p by auto
      then show ?thesis by (rule that)
    qed
    from Cons.IH [OF mem, of fl ignored]
    obtain pre n f post where nf: "items = pre @ (n, f) # post"
        "\<forall>m g. (m, g) \<in> set pre \<longrightarrow>
                 \<not> (?surv m \<and> mongofield_to_formfield g (widgets m) = None)"
        "?surv n"
        "mongofield_to_formfield f (widgets n) = None"
        "collect_loop fs ex widgets NoCallback items fl ignored
           = Inl (TypeError (unsupported_message f))"
      by blast
    have a: "p # items = (p # pre) @ (n, f) # post" using nf(1) by simp
    have b: "\<forall>m g. (m, g) \<in> set (p # pre) \<longrightarrow>
                 \<not> (?surv m \<and> mongofield_to_formfield g (widgets m) = None)"
      using nf(2) False by (auto simp: p)
    have c: "collect_loop fs ex widgets NoCallback (p # items) field_list ignored
           = Inl (TypeError (unsupported_message f))"
      using step nf(5) by simp
    from a b c nf(3,4) show ?thesis by blast
  qed
qed

text \<open>
  Claim C8, as stated, fails: the message of the error holds the descriptor's string
  form, and the field's name (\<open>tags\<close> here) occurs nowhere in it.
\<close>

theorem unsupported_field_counterexample:
  "mongofield_to_formfield list_field None = None
   \<and> fields_for_doc post_document None None Map.empty NoCallback =
       Inl (TypeError (''<mongoengine.fields.ListField object at 0x10f3e50>''
              @ '' is an unsupported field types at the moment, you should put it in the exclude list''))
   \<and> \<not> sublist ''tags''
         (''<mongoengine.fields.ListField object at 0x10f3e50>''
            @ '' is an unsupported field types at the moment, you should put it in the exclude list'')"
proof -
  have a: "mongofield_to_formfield list_field None = None"
    by (simp add: list_field_def plain_field_def mongofield_to_formfield_def)
  have s: "mongofield_to_formfield string_field None \<noteq> None"
    by (simp add: string_field_def plain_field_def mongofield_to_formfield_def Let_def)
  have b: "fields_for_doc post_document None None Map.empty NoCallback =
       Inl (TypeError (''<mongoengine.fields.ListField object at 0x10f3e50>''
              @ '' is an unsupported field types at the moment, you should put it in the exclude list''))"
    using a s
    by (auto simp: fields_for_doc_def post_document_def unsupported_message_def
          list_field_def plain_field_def)
  have c: "\<not> sublist ''tags''
         (''<mongoengine.fields.ListField object at 0x10f3e50>''
            @ '' is an unsupported field types at the moment, you should put it in the exclude list'')"
    by (simp add: sublist_code)
  from a b c show ?thesis by blast
qed

text \<open>
  Claim C8, amended. With no override function, when some field that passes the
  include and exclude tests has no form field from the translator, the fields of the
  document split into the fields before the first such field, that field, and the
  rest, and \<open>fields_for_doc\<close> raises a \<open>TypeError\<close> whose message is the
  string form of that first field's descriptor followed by the advice to exclude it.
\<close>

theorem unsupported_field_raises:
  assumes "(name, field) \<in> set (doc_fields doc)"
    and "\<forall>ns. fs = Some ns \<longrightarrow> name \<in> set ns"
    and "\<forall>ns. ex = Some ns \<longrightarrow> name \<notin> set ns"
    and "mongofield_to_formfield field (widgets name) = None"
  shows "\<exists>pre n f post. doc_fields doc = pre @ (n, f) # post
           \<and> (\<forall>m g. (m, g) \<in> set pre \<longrightarrow>
                 \<not> ((\<forall>ns. fs = Some ns \<longrightarrow> m \<in> set ns) \<and> (\<forall>ns. ex = Some ns \<longrightarrow> m \<notin> set ns)
                    \<and> mongofield_to_formfield g (widgets m) = None))
           \<and> (\<forall>ns. fs = Some ns \<longrightarrow> n \<in> set ns) \<and> (\<forall>ns. ex = Some ns \<longrightarrow> n \<notin> set ns)
           \<and> mongofield_to_formfield f (widgets n) = None
           \<and> fields_for_doc doc fs ex widgets NoCallback =
               Inl (TypeError (field_str f
                 @ '' is an unsupported field types at the moment, you should put it in the exclude list''))"
proof -
  from collect_loop_first_unsupported [where widgets = widgets and name = name
      and field = field and items = "doc_fields doc" and fs = fs and ex = ex
      and field_list = "[]" and ignored = "[]", OF assms]
  obtain pre n f post where nf: "doc_fields doc = pre @ (n, f) # post"
      "\<forall>m g. (m, g) \<in> set pre \<longrightarrow>
                 \<not> ((\<forall>ns. fs = Some ns \<longrightarrow> m \<in> set ns) \<and> (\<forall>ns. ex = Some ns \<longrightarrow> m \<notin> set ns)
                    \<and> mongofield_to_formfield g (widgets m) = None)"
      "\<forall>ns. fs = Some ns \<longrightarrow> n \<in> set ns" "\<forall>ns. ex = Some ns \<longrightarrow> n \<notin> set ns"
      "mongofield_to_formfield f (widgets n) = None"
      "collect_loop fs ex widgets NoCallback (doc_fields doc) [] []
         = Inl (TypeError (unsupported_message f))"
    by blast
  from nf(6) have "fields_for_doc doc fs ex widgets NoCallback =
               Inl (TypeError (field_str f
                 @ '' is an unsupported field types at the moment, you should put it in the exclude list''))"
    by (simp add: fields_for_doc_def unsupported_message_def)
  with nf(1-5) show ?thesis by blast
qed

theorem unsupported_field_raises_witness:
  "(''tags'', list_field) \<in> set (doc_fields post_document)
   \<and> mongofield_to_formfield list_field (Map.empty ''tags'') = None
   \<and> doc_fields post_document = [(''title'', string_field)] @ (''tags'', list_field) # []
   \<and> mongofield_to_formfield string_field None \<noteq> None
   \<and> fields_for_doc post_document None None Map.empty NoCallback =
       Inl (TypeError (field_str list_field
         @ '' is an unsupported field types at the moment, you should put it in the exclude list''))"
proof -
  have a: "(''tags'', list_field) \<in> set (doc_fields post_document)"
    and l: "doc_fields post_document = [(''title'', string_field), (''tags'', list_field)]"
    by (simp_all add: post_document_def)
  have i: "\<forall>ns. (None :: names) = Some ns \<longrightarrow> ''tags'' \<in> set ns"
    and e: "\<forall>ns. (None :: names) = Some ns \<longrightarrow> ''tags'' \<notin> set ns"
    by simp_all
  have t: "mongofield_to_formfield list_field (Map.empty ''tags'') = None"
    by (simp add: list_field_def plain_field_def mongofield_to_formfield_def)
  have s: "mongofield_to_formfield string_field None \<noteq> None"
    by (simp add: string_field_def plain_field_def mongofield_to_formfield_def Let_def)
  from unsupported_field_raises [where widgets = Map.empty and name = "''tags''"
      and field = list_field and doc = post_document and fs = None and ex = None,
      OF a i e t]
  obtain pre n f post where nf: "doc_fields post_document = pre @ (n, f) # post"
      "mongofield_to_formfield f (Map.empty n) = None"
      "fields_for_doc post_document None None Map.empty NoCallback =
         Inl (TypeError (field_str f
           @ '' is an unsupported field types at the moment, you should put it in the exclude list''))"
    by blast
  from nf(1) l have "(n, f) \<in> set [(''title'', string_field), (''tags'', list_field)]"
    by (metis in_set_conv_decomp)
  with nf(2) s have "f = list_field" by auto
  with nf(3) a t l s show ?thesis by simp
qed

text \<open>
  Claim C2 at a failing input: the include list names \<open>name\<close>, there is no exclude
  list, and the override function declines the field, so the loop records \<open>name\<close> as
  ignored. The final comprehension keeps it all the same, with a null entry, because
  the test on \<open>ignored\<close> is reached only when \<open>exclude\<close> is truthy; with a
  non-empty exclude list the same name is dropped.
\<close>

theorem include_list_keeps_ignored_name:
  "collect_loop (Some [''name'']) None Map.empty ignore_callback (doc_fields user_document) [] []
     = Inr ([], [''name''])
   \<and> fields_for_doc user_document (Some [''name'']) None Map.empty ignore_callback
       = Inr [(''name'', None)]
   \<and> fields_for_doc user_document (Some [''name'']) (Some [''homepage'']) Map.empty
         ignore_callback
       = Inr []"
  by (simp add: fields_for_doc_def user_document_def ignore_callback_def SortedDict_def
        dict_update_def dict_get_def keep_included_def)

text \<open>
  Claim C9 at a failing input: with the empty include list, \<open>doc_to_dict\<close> reads both
  fields of the instance (its test on \<open>fields\<close> is a truth test), and so does the
  form's constructor, while \<open>fields_for_doc\<close> keeps no field of the same document.
\<close>

theorem empty_include_list_differs:
  "inst_fields user_instance = doc_fields user_document
   \<and> doc_to_dict user_instance (Some []) None ''name'' = Some (PStr ''Ann'')
   \<and> doc_to_dict user_instance (Some []) None ''homepage'' = Some (PStr [])
   \<and> map_sum id (\<lambda>(i, initial). initial ''name'')
        (BaseDocForm_init (\<lambda>d. user_instance) (user_options \<lparr> opt_fields := Some [] \<rparr>) None
           (Some user_instance))
       = Inr (Some (PStr ''Ann''))
   \<and> fields_for_doc user_document (Some []) None Map.empty NoCallback = Inr []"
  by (simp add: doc_to_dict_def user_instance_def user_document_def field_get_def
        BaseDocForm_init_def user_options_def fields_for_doc_def SortedDict_def
        dict_update_def)

text \<open>
  Claim C6 at a failing input: the include list names \<open>nickname\<close>, which is no field
  of the document, so the mapping has a null entry for it and no declared field
  covers it. Class creation fails, but with the \<open>NameError\<close> for \<open>FieldError\<close>,
  and the message built for the unknown field is lost.
\<close>

theorem unknown_field_raises_name_error:
  "fields_for_doc user_document (Some [''nickname'']) None Map.empty NoCallback
     = Inr [(''nickname'', None)]
   \<and> unknown_fields_message [''nickname''] user_document
       = ''Unknown field(s) (nickname) specified for User''
   \<and> DocFormMetaclass_new True NoCallback []
        (user_options \<lparr> opt_fields := Some [''nickname''] \<rparr>)
       = Inl (NameError ''FieldError'')"
  by (simp add: fields_for_doc_def user_document_def user_options_def SortedDict_def
        dict_update_def dict_get_def keep_included_def DocFormMetaclass_new_def
        unknown_fields_message_def)

end
